theory Spec2Isabelle
  imports Main "HOL-Library.Sublist"
begin

section \<open>JavaScript values, exceptions and the request object\<close>

text \<open>
  The values the middleware handles: the token an extractor returns, the payload
  \<^verbatim>\<open>jwt.verify\<close> decodes, the properties of the request. Numbers are integers here
  (\<^verbatim>\<open>NaN\<close> and fractions play no role in the source). An object is the list of its
  own properties.
\<close>

datatype jsval =
    JUndefined
  | JNull
  | JBool bool
  | JNum int
  | JStr string
  | JObj "(string \<times> jsval) list"

text \<open>What \<^verbatim>\<open>if (v)\<close>, \<^verbatim>\<open>!v\<close> and \<^verbatim>\<open>v || d\<close> test.\<close>

fun truthy :: "jsval \<Rightarrow> bool" where
  "truthy JUndefined = False"
| "truthy JNull = False"
| "truthy (JBool b) = b"
| "truthy (JNum n) = (n \<noteq> 0)"
| "truthy (JStr s) = (s \<noteq> [])"
| "truthy (JObj kvs) = True"

text \<open>A thrown error: its \<^verbatim>\<open>name\<close> and its \<^verbatim>\<open>message\<close>.\<close>

datatype exn = Exn (name: string) (message: string)

text \<open>
  The request is an object: a table from property names to values. Its \<^verbatim>\<open>headers\<close>
  property holds the table of headers. \<^verbatim>\<open>req[k] = v\<close> is \<open>req(k \<mapsto> v)\<close>.
\<close>

type_synonym request = "string \<rightharpoonup> jsval"

text \<open>An extractor reads the request and returns a value, or throws.\<close>

type_synonym extractor = "request \<Rightarrow> exn + jsval"

text \<open>
  \<^verbatim>\<open>jwt.verify(token, secretKey)\<close> of the library \<^verbatim>\<open>jsonwebtoken\<close>, called without a
  callback: it returns the decoded payload or throws. The library is not part of this
  repository, so it is a parameter of the model.
\<close>

type_synonym verifier = "jsval \<Rightarrow> string \<Rightarrow> exn + jsval"

text \<open>
  \<^verbatim>\<open>options.logger || console\<close>: the logger is a sink, identified by the object that was
  passed in.
\<close>

datatype logger = Console | Custom string

text \<open>
  What a call of the handler does to the outside, in the order in which it does it:
  calls of the logger, of the extractor (with what it returned or threw), of
  \<^verbatim>\<open>jwt.verify\<close> (with its arguments and what it returned or threw), the chained call
  \<^verbatim>\<open>resp.status(s).json(body)\<close>, and the call \<^verbatim>\<open>next()\<close>. The logger and the response
  are sinks: their methods return normally.
\<close>

datatype event =
    LogInfo logger string
  | LogWarn logger jsval
  | LogWarnErr logger exn string
  | Extract "exn + jsval"
  | Verify jsval string "exn + jsval"
  | Respond nat jsval
  | NextCall

text \<open>A call of the handler returns, or an exception leaves it.\<close>

datatype completion = Returned | Raised exn

text \<open>
  The result of one call of the handler: what it did, the request object after the
  call, and how the call ended.
\<close>

record outcome =
  events :: "event list"
  request :: request
  completion :: completion

section \<open>The options and the constants of the closure\<close>

text \<open>
  The \<^verbatim>\<open>options\<close> argument, typed as \<^verbatim>\<open>index.d.ts\<close> declares it. A field that the
  caller left out is \<open>None\<close>. \<^verbatim>\<open>secretKey\<close> is declared required, but a JavaScript
  caller can leave it out (\<^verbatim>\<open>process.env.JWT_SECRET_KEY\<close> may be undefined), so it is
  optional here too. \<^verbatim>\<open>messages\<close> is an object: the table of its own properties. A
  property of it declared \<^verbatim>\<open>noToken?: string\<close> can be left out, and it can be present
  with the value \<^verbatim>\<open>undefined\<close>, so the values of the table are JavaScript values.
\<close>

record options =
  opt_secretKey :: "string option"
  opt_disableTokenVerification :: "bool option"
  opt_userProperty :: "string option"
  opt_logger :: "logger option"
  opt_messages :: "(string \<rightharpoonup> jsval) option"
  opt_extractToken :: "extractor option"

text \<open>The constants that \<^verbatim>\<open>verifyToken\<close> closes over (lines 24 to 46).\<close>

record closure =
  secretKey :: string
  disableTokenVerification :: bool
  userProperty :: string
  logger :: logger
  messages :: "string \<rightharpoonup> jsval"
  extractToken :: extractor

text \<open>The object literal of the built-in messages (lines 31 to 34).\<close>

definition default_messages :: "string \<rightharpoonup> jsval" where
  "default_messages =
     [''noToken'' \<mapsto> JStr ''No authorization header provided'',
      ''malformedToken'' \<mapsto> JStr ''Malformed authorization header'',
      ''expiredToken'' \<mapsto> JStr ''Session expired. Please login'',
      ''invalidToken'' \<mapsto> JStr ''Error validating token credentials. Please relogin'']"

text \<open>
  \<^verbatim>\<open>s.split(' ')\<close>: the pieces of \<open>s\<close> between its space characters. There is always at
  least one piece.
\<close>

fun split_space :: "string \<Rightarrow> string list" where
  "split_space [] = [[]]"
| "split_space (c # cs) =
     (if c = CHR '' '' then [] # split_space cs
      else (case split_space cs of
              [] \<Rightarrow> [[c]]
            | w # ws \<Rightarrow> (c # w) # ws))"

text \<open>
  \<^verbatim>\<open>defaultExtractToken\<close> (lines 39 to 44). Reading a property of \<^verbatim>\<open>undefined\<close> or
  \<^verbatim>\<open>null\<close> throws a \<^verbatim>\<open>TypeError\<close>, and so does calling \<^verbatim>\<open>split\<close> on a truthy value
  that is not a string. The destructuring \<^verbatim>\<open>[bearer, token]\<close> takes the first two
  pieces; \<^verbatim>\<open>token\<close> is \<^verbatim>\<open>undefined\<close> when there is one piece only.
\<close>

definition type_error :: exn where
  "type_error = Exn ''TypeError'' ''''"

definition defaultExtractToken :: extractor where
  "defaultExtractToken req =
     (case req ''headers'' of
        None \<Rightarrow> Inl type_error
      | Some JUndefined \<Rightarrow> Inl type_error
      | Some JNull \<Rightarrow> Inl type_error
      | Some (JObj hs) \<Rightarrow>
          (case map_of hs ''authorization'' of
             None \<Rightarrow> Inr JNull
           | Some (JStr authHeader) \<Rightarrow>
               (if authHeader = [] then Inr JNull
                else (case split_space authHeader of
                        [] \<Rightarrow> Inr JNull
                      | [bearer] \<Rightarrow> (if bearer = ''Bearer'' then Inr JUndefined else Inr JNull)
                      | bearer # token # rest \<Rightarrow>
                          (if bearer = ''Bearer'' then Inr (JStr token) else Inr JNull)))
           | Some v \<Rightarrow> (if truthy v then Inl type_error else Inr JNull))
      | Some other \<Rightarrow> Inr JNull)"

text \<open>
  The constants of lines 24 to 46, from an \<^verbatim>\<open>options\<close> object whose \<^verbatim>\<open>secretKey\<close>
  passed the check of line 20. \<^verbatim>\<open>x || d\<close> is \<open>d\<close> when \<open>x\<close> is missing or falsy; the
  spread \<^verbatim>\<open>...options.messages\<close> writes every own property of the override over the
  built-in ones, a property whose value is \<^verbatim>\<open>undefined\<close> included, and spreads nothing
  when \<^verbatim>\<open>options.messages\<close> is missing.
\<close>

definition bindings :: "options \<Rightarrow> closure" where
  "bindings opts =
     \<lparr> secretKey = (case opt_secretKey opts of None \<Rightarrow> [] | Some k \<Rightarrow> k),
       disableTokenVerification =
         (case opt_disableTokenVerification opts of None \<Rightarrow> False | Some b \<Rightarrow> b),
       userProperty =
         (case opt_userProperty opts of
            None \<Rightarrow> ''user''
          | Some p \<Rightarrow> (if p = [] then ''user'' else p)),
       logger = (case opt_logger opts of None \<Rightarrow> Console | Some l \<Rightarrow> l),
       messages =
         (case opt_messages opts of
            None \<Rightarrow> default_messages
          | Some ms \<Rightarrow> default_messages ++ ms),
       extractToken =
         (case opt_extractToken opts of None \<Rightarrow> defaultExtractToken | Some f \<Rightarrow> f) \<rparr>"

section \<open>The handler\<close>

text \<open>\<^verbatim>\<open>messages.k\<close>: reading a property that is not there gives \<^verbatim>\<open>undefined\<close>.\<close>

definition message_of :: "closure \<Rightarrow> string \<Rightarrow> jsval" where
  "message_of c k = (case messages c k of None \<Rightarrow> JUndefined | Some v \<Rightarrow> v)"

text \<open>The object literal \<^verbatim>\<open>{ message: messages.k }\<close>.\<close>

definition message_body :: "closure \<Rightarrow> string \<Rightarrow> jsval" where
  "message_body c k = JObj [(''message'', message_of c k)]"

text \<open>
  The \<^verbatim>\<open>catch\<close> block (lines 64 to 71), entered with the error \<open>err\<close> after the events
  \<open>evs\<close>, the request being \<open>req\<close> by then.
\<close>

definition catch_block :: "closure \<Rightarrow> exn \<Rightarrow> event list \<Rightarrow> request \<Rightarrow> outcome" where
  "catch_block c err evs req =
     \<lparr> events = evs @
         [LogWarnErr (logger c) err ''Error decoding/verifying token'',
          (if name err = ''TokenExpiredError''
           then Respond 401 (message_body c ''expiredToken'')
           else Respond 401 (message_body c ''invalidToken''))],
       request = req,
       completion = Returned \<rparr>"

text \<open>
  \<^verbatim>\<open>verifyToken(req, resp, next)\<close> (lines 48 to 72). The continuation \<open>next\<close> is given by
  what calling it does to the caller: \<open>None\<close> when it returns, \<open>Some e\<close> when it throws
  \<open>e\<close>. In the bypass branch and in the extractor call an exception leaves the handler;
  the calls of \<^verbatim>\<open>jwt.verify\<close> and of \<^verbatim>\<open>next\<close> in lines 61 to 63 are inside the
  \<^verbatim>\<open>try\<close>, so what they throw goes to the \<^verbatim>\<open>catch\<close> block.
\<close>

definition verifyToken :: "verifier \<Rightarrow> closure \<Rightarrow> request \<Rightarrow> exn option \<Rightarrow> outcome" where
  "verifyToken jwt_verify c req next =
     (if disableTokenVerification c then
        \<lparr> events =
            [LogInfo (logger c) ''Token verification is disabled. Skipping verification.'',
             NextCall],
          request = req,
          completion = (case next of None \<Rightarrow> Returned | Some e \<Rightarrow> Raised e) \<rparr>
      else
        (case extractToken c req of
           Inl e \<Rightarrow> \<lparr> events = [Extract (Inl e)], request = req, completion = Raised e \<rparr>
         | Inr token \<Rightarrow>
             (if \<not> truthy token then
                \<lparr> events =
                    [Extract (Inr token),
                     LogWarn (logger c) (message_of c ''noToken''),
                     Respond 401 (message_body c ''noToken'')],
                  request = req,
                  completion = Returned \<rparr>
              else
                (case jwt_verify token (secretKey c) of
                   Inl err \<Rightarrow>
                     catch_block c err
                       [Extract (Inr token), Verify token (secretKey c) (Inl err)] req
                 | Inr decodedToken \<Rightarrow>
                     (case next of
                        None \<Rightarrow>
                          \<lparr> events =
                              [Extract (Inr token),
                               Verify token (secretKey c) (Inr decodedToken),
                               NextCall],
                            request = req(userProperty c \<mapsto> decodedToken),
                            completion = Returned \<rparr>
                      | Some err \<Rightarrow>
                          catch_block c err
                            [Extract (Inr token),
                             Verify token (secretKey c) (Inr decodedToken),
                             NextCall]
                            (req(userProperty c \<mapsto> decodedToken)))))))"

text \<open>
  \<^verbatim>\<open>createVerifyTokenMiddleware(options)\<close> (lines 19 to 73): \<open>None\<close> is a call with no
  options value. It throws, or returns the handler.
\<close>

definition secret_required :: exn where
  "secret_required =
     Exn ''Error'' ''Secret key is required in options for JWT verification middleware.''"

definition createVerifyTokenMiddleware ::
  "verifier \<Rightarrow> options option \<Rightarrow> exn + (request \<Rightarrow> exn option \<Rightarrow> outcome)" where
  "createVerifyTokenMiddleware jwt_verify options =
     (case options of
        None \<Rightarrow> Inl secret_required
      | Some opts \<Rightarrow>
          (case opt_secretKey opts of
             None \<Rightarrow> Inl secret_required
           | Some k \<Rightarrow>
               (if k = [] then Inl secret_required
                else Inr (verifyToken jwt_verify (bindings opts)))))"

text \<open>What is read off an outcome: the responses written and the calls of \<^verbatim>\<open>next\<close>.\<close>

definition responses :: "outcome \<Rightarrow> (nat \<times> jsval) list" where
  "responses r = concat (map (\<lambda>e. case e of Respond s b \<Rightarrow> [(s, b)] | _ \<Rightarrow> []) (events r))"

definition next_calls :: "outcome \<Rightarrow> nat" where
  "next_calls r = length (filter (\<lambda>e. e = NextCall) (events r))"

text \<open>
  The text of \<open>s\<close> before its first space (all of \<open>s\<close> when it has none), and the
  text after its first space.
\<close>

definition before_space :: "string \<Rightarrow> string" where
  "before_space s = takeWhile (\<lambda>c. c \<noteq> CHR '' '') s"

definition after_space :: "string \<Rightarrow> string" where
  "after_space s = tl (dropWhile (\<lambda>c. c \<noteq> CHR '' '') s)"

section \<open>Concrete inputs\<close>

text \<open>
  Inputs on which the model is run below. The verifier stands for \<^verbatim>\<open>jwt.verify\<close> on
  three tokens issued under the secret \<^verbatim>\<open>s3cret\<close>: \<^verbatim>\<open>good\<close> decodes to the payload
  \<^verbatim>\<open>{sub: "u1"}\<close>, \<^verbatim>\<open>old\<close> has expired, and anything else is rejected the way a bad
  signature is.
\<close>

definition sample_claims :: jsval where
  "sample_claims = JObj [(''sub'', JStr ''u1'')]"

definition sample_verify :: verifier where
  "sample_verify token secret =
     (if token = JStr ''good'' \<and> secret = ''s3cret'' then Inr sample_claims
      else if token = JStr ''old'' \<and> secret = ''s3cret''
      then Inl (Exn ''TokenExpiredError'' ''jwt expired'')
      else Inl (Exn ''JsonWebTokenError'' ''invalid signature''))"

text \<open>A request whose only header is \<^verbatim>\<open>Authorization: h\<close>, and one with no header.\<close>

definition request_with_authorization :: "string \<Rightarrow> request" where
  "request_with_authorization h = [''headers'' \<mapsto> JObj [(''authorization'', JStr h)]]"

definition request_without_headers :: request where
  "request_without_headers = [''headers'' \<mapsto> JObj []]"

text \<open>Options that give the secret only, and the same with verification disabled.\<close>

definition secret_only :: options where
  "secret_only =
     \<lparr> opt_secretKey = Some ''s3cret'',
       opt_disableTokenVerification = None,
       opt_userProperty = None,
       opt_logger = None,
       opt_messages = None,
       opt_extractToken = None \<rparr>"

definition verification_disabled :: options where
  "verification_disabled = secret_only \<lparr> opt_disableTokenVerification := Some True \<rparr>"


text \<open>An extractor that reads the header \<^verbatim>\<open>x-custom-token\<close>, as the README's example does.\<close>

definition custom_header_extractor :: extractor where
  "custom_header_extractor req =
     (case req ''headers'' of
        Some (JObj hs) \<Rightarrow>
          (case map_of hs ''x-custom-token'' of None \<Rightarrow> Inr JUndefined | Some v \<Rightarrow> Inr v)
      | _ \<Rightarrow> Inl type_error)"

text \<open>A downstream stage that throws.\<close>

definition downstream_error :: exn where
  "downstream_error = Exn ''Error'' ''boom''"

section \<open>The pieces of a split and the default extractor\<close>

lemma split_space_not_Nil: "split_space s \<noteq> []"
  by (induction s) (auto split: list.splits)

lemma hd_split_space: "hd (split_space s) = before_space s"
  by (induction s) (auto split: list.splits simp: split_space_not_Nil before_space_def)

lemma tl_split_space:
  "tl (split_space s) = (if CHR '' '' \<in> set s then split_space (after_space s) else [])"
  by (induction s) (auto split: list.splits simp: split_space_not_Nil after_space_def)

lemma split_space_pieces:
  "split_space s =
     (if CHR '' '' \<in> set s
      then before_space s # before_space (after_space s) # tl (split_space (after_space s))
      else [before_space s])"
proof -
  have a: "split_space s = hd (split_space s) # tl (split_space s)"
    using split_space_not_Nil [of s] by simp
  have b: "split_space (after_space s) =
             hd (split_space (after_space s)) # tl (split_space (after_space s))"
    using split_space_not_Nil [of "after_space s"] by simp
  show ?thesis
  proof (cases "CHR '' '' \<in> set s")
    case True
    then have "tl (split_space s) = split_space (after_space s)"
      by (simp add: tl_split_space)
    with a b show ?thesis
      using True by (metis hd_split_space)
  next
    case False
    then have "tl (split_space s) = []"
      by (simp add: tl_split_space)
    with a show ?thesis
      using False by (metis hd_split_space)
  qed
qed

lemma before_after_space:
  "CHR '' '' \<in> set s \<Longrightarrow> s = before_space s @ CHR '' '' # after_space s"
  by (induction s) (auto simp: before_space_def after_space_def)

lemma defaultExtractToken_string:
  assumes "req ''headers'' = Some (JObj hs)" and "map_of hs ''authorization'' = Some (JStr h)"
  shows "defaultExtractToken req =
           Inr (if before_space h = ''Bearer''
                then (if CHR '' '' \<in> set h then JStr (before_space (after_space h))
                      else JUndefined)
                else JNull)"
proof (cases "h = []")
  case True
  with assms show ?thesis
    by (simp add: defaultExtractToken_def before_space_def)
next
  case False
  with assms show ?thesis
    by (simp add: defaultExtractToken_def split_space_pieces)
qed

lemma defaultExtractToken_absent:
  assumes "req ''headers'' = Some (JObj hs)" and "map_of hs ''authorization'' = None"
  shows "defaultExtractToken req = Inr JNull"
  using assms by (simp add: defaultExtractToken_def)

lemma bearer_prefix:
  assumes "before_space h = ''Bearer''" and "CHR '' '' \<in> set h"
  shows "prefix ''Bearer '' h"
proof -
  have "h = ''Bearer'' @ CHR '' '' # after_space h"
    using before_after_space [OF assms(2)] assms(1) by simp
  then have "h = ''Bearer '' @ after_space h" by simp
  then show ?thesis by (metis prefixI)
qed

lemma create_Inr:
  "createVerifyTokenMiddleware jwt (Some opts) = Inr handler \<Longrightarrow>
     handler = verifyToken jwt (bindings opts) \<and> (\<exists>k. opt_secretKey opts = Some k \<and> k \<noteq> [])"
  by (auto simp: createVerifyTokenMiddleware_def split: option.splits if_splits)

lemma no_token_outcome:
  assumes "\<not> disableTokenVerification c" and "extractToken c req = Inr v" and "\<not> truthy v"
  shows "verifyToken jwt c req nxt =
           \<lparr> events = [Extract (Inr v), LogWarn (logger c) (message_of c ''noToken''),
                        Respond 401 (message_body c ''noToken'')],
             request = req, completion = Returned \<rparr>"
  using assms by (simp add: verifyToken_def)

section \<open>Construction and the resolved messages\<close>

lemma create_sample:
  "createVerifyTokenMiddleware sample_verify (Some secret_only) =
     Inr (verifyToken sample_verify (bindings secret_only))"
  by (simp add: createVerifyTokenMiddleware_def secret_only_def)

lemma create_disabled:
  "createVerifyTokenMiddleware sample_verify (Some verification_disabled) =
     Inr (verifyToken sample_verify (bindings verification_disabled))"
  by (simp add: createVerifyTokenMiddleware_def verification_disabled_def secret_only_def)

lemma messages_bindings:
  "messages (bindings opts) k =
     (case opt_messages opts of
        None \<Rightarrow> default_messages k
      | Some ms \<Rightarrow> (case ms k of None \<Rightarrow> default_messages k | Some m \<Rightarrow> Some m))"
  by (simp add: bindings_def map_add_def split: option.splits)






section \<open>The rejection responses\<close>






section \<open>Construction\<close>

text \<open>
  Claim C3. \<^verbatim>\<open>createVerifyTokenMiddleware\<close> throws exactly when it is called with no
  options value or with options whose \<^verbatim>\<open>secretKey\<close> is missing or empty, and returns a
  handler exactly when the options carry a non-empty \<^verbatim>\<open>secretKey\<close>. The throw is the
  result of the construction call itself: where it throws there is no handler to give
  a request to.
\<close>

theorem construction_throws_iff_no_secret:
  "((\<exists>e. createVerifyTokenMiddleware jwt options = Inl e) =
      (options = None \<or>
       (\<exists>opts. options = Some opts \<and>
          (opt_secretKey opts = None \<or> opt_secretKey opts = Some [])))) \<and>
   ((\<exists>handler. createVerifyTokenMiddleware jwt options = Inr handler) =
      (\<exists>opts k. options = Some opts \<and> opt_secretKey opts = Some k \<and> k \<noteq> []))"
  by (cases options)
    (auto simp: createVerifyTokenMiddleware_def split: option.splits)

text \<open>
  The theorem at three calls: no options, options with an empty secret, and options
  with the secret \<^verbatim>\<open>s3cret\<close>.
\<close>

theorem construction_throws_iff_no_secret_witness:
  "createVerifyTokenMiddleware sample_verify None = Inl secret_required \<and>
   createVerifyTokenMiddleware sample_verify (Some (secret_only \<lparr> opt_secretKey := Some [] \<rparr>)) =
     Inl secret_required \<and>
   (\<exists>handler. createVerifyTokenMiddleware sample_verify (Some secret_only) = Inr handler)"
proof -
  have "\<exists>opts k. Some secret_only = Some opts \<and> opt_secretKey opts = Some k \<and> k \<noteq> []"
    by (simp add: secret_only_def)
  then have "\<exists>handler. createVerifyTokenMiddleware sample_verify (Some secret_only) = Inr handler"
    using construction_throws_iff_no_secret [of sample_verify "Some secret_only"] by blast
  then show ?thesis
    by (simp add: createVerifyTokenMiddleware_def)
qed

section \<open>The bypass\<close>

text \<open>
  Claim C7. A handler constructed with \<^verbatim>\<open>disableTokenVerification: true\<close> does, for every
  request and whatever its headers, exactly two things in this order: it logs the
  informational notice and it calls \<^verbatim>\<open>next\<close>. The extractor is not called and
  \<^verbatim>\<open>jwt.verify\<close> is not called, no response is written, and the request object is the
  one it was given: no property of it is set, the identity field included.
\<close>

theorem bypass_calls_next_only:
  assumes "createVerifyTokenMiddleware jwt (Some opts) = Inr handler"
    and "opt_disableTokenVerification opts = Some True"
  shows "events (handler req nxt) =
           [LogInfo (logger (bindings opts))
              ''Token verification is disabled. Skipping verification.'',
            NextCall] \<and>
         next_calls (handler req nxt) = 1 \<and>
         responses (handler req nxt) = [] \<and>
         request (handler req nxt) = req"
proof -
  have "handler = verifyToken jwt (bindings opts)"
    using create_Inr [OF assms(1)] by simp
  moreover have "disableTokenVerification (bindings opts)"
    using assms(2) by (simp add: bindings_def)
  ultimately show ?thesis
    by (simp add: verifyToken_def next_calls_def responses_def)
qed

text \<open>The theorem at a request that carries a valid token: it is not looked at.\<close>

theorem bypass_calls_next_only_witness:
  "opt_disableTokenVerification verification_disabled = Some True \<and>
   events (verifyToken sample_verify (bindings verification_disabled)
       (request_with_authorization ''Bearer good'') None) =
     [LogInfo Console ''Token verification is disabled. Skipping verification.'', NextCall] \<and>
   request (verifyToken sample_verify (bindings verification_disabled)
       (request_with_authorization ''Bearer good'') None) =
     request_with_authorization ''Bearer good''"
proof -
  have d: "opt_disableTokenVerification verification_disabled = Some True"
    by (simp add: verification_disabled_def)
  have l: "logger (bindings verification_disabled) = Console"
    by (simp add: bindings_def verification_disabled_def secret_only_def)
  show ?thesis
    using bypass_calls_next_only [OF create_disabled d,
        of "request_with_authorization ''Bearer good''" None] d l
    by simp
qed

section \<open>The messages\<close>

text \<open>
  Claim C8. The messages are merged property by property. With an override object
  \<open>ms\<close>, the resolved message of every name is the one \<open>ms\<close> supplies when \<open>ms\<close> has
  that name, and the built-in one otherwise; the built-in ones are the four strings of
  the source.
\<close>

theorem messages_merge_by_field:
  assumes "opt_messages opts = Some ms"
  shows "messages (bindings opts) k =
           (case ms k of None \<Rightarrow> default_messages k | Some m \<Rightarrow> Some m) \<and>
         default_messages ''noToken'' = Some (JStr ''No authorization header provided'') \<and>
         default_messages ''malformedToken'' = Some (JStr ''Malformed authorization header'') \<and>
         default_messages ''expiredToken'' = Some (JStr ''Session expired. Please login'') \<and>
         default_messages ''invalidToken'' =
           Some (JStr ''Error validating token credentials. Please relogin'')"
  using assms by (simp add: messages_bindings default_messages_def)

text \<open>
  The theorem at the README's override of \<^verbatim>\<open>noToken\<close> alone: \<^verbatim>\<open>noToken\<close> is the
  override's and \<^verbatim>\<open>expiredToken\<close> stays the built-in one.
\<close>

theorem messages_merge_by_field_witness:
  "opt_messages (secret_only \<lparr> opt_messages :=
       Some [''noToken'' \<mapsto> JStr ''Please provide an authentication token''] \<rparr>) =
     Some [''noToken'' \<mapsto> JStr ''Please provide an authentication token''] \<and>
   messages (bindings (secret_only \<lparr> opt_messages :=
       Some [''noToken'' \<mapsto> JStr ''Please provide an authentication token''] \<rparr>)) ''noToken'' =
     Some (JStr ''Please provide an authentication token'') \<and>
   messages (bindings (secret_only \<lparr> opt_messages :=
       Some [''noToken'' \<mapsto> JStr ''Please provide an authentication token''] \<rparr>)) ''expiredToken'' =
     Some (JStr ''Session expired. Please login'')"
proof -
  let ?ms = "[''noToken'' \<mapsto> JStr ''Please provide an authentication token'']"
  let ?o = "secret_only \<lparr> opt_messages := Some ?ms \<rparr>"
  have h: "opt_messages ?o = Some ?ms" by simp
  show ?thesis
    using messages_merge_by_field [OF h, of "''noToken''"]
      messages_merge_by_field [OF h, of "''expiredToken''"]
    by simp
qed

section \<open>Tokens that fail verification\<close>

lemma verify_event:
  assumes "Verify token secret result \<in> set (events (verifyToken jwt c req nxt))"
  shows "\<not> disableTokenVerification c \<and> extractToken c req = Inr token \<and> truthy token \<and>
         secret = secretKey c \<and> jwt token secret = result"
  using assms
  by (auto simp: verifyToken_def catch_block_def split: if_splits sum.splits option.splits)






section \<open>Falsy results of the extractor\<close>

lemma extract_event:
  assumes "Extract result \<in> set (events (verifyToken jwt c req nxt))"
  shows "\<not> disableTokenVerification c \<and> extractToken c req = result"
  using assms
  by (auto simp: verifyToken_def catch_block_def split: if_splits sum.splits option.splits)

text \<open>
  Claim C10. Whatever the configured extractor is, when the handler's call of it
  returns a falsy value \<open>v\<close> (the empty string, \<^verbatim>\<open>null\<close>, \<^verbatim>\<open>undefined\<close>, \<^verbatim>\<open>false\<close>, \<^verbatim>\<open>0\<close>),
  the handler writes the single response 401 with the \<^verbatim>\<open>noToken\<close> message, calls
  neither \<^verbatim>\<open>jwt.verify\<close> nor \<^verbatim>\<open>next\<close>, and leaves the request as it was.
\<close>

theorem falsy_extraction_never_verified:
  assumes "Extract (Inr v) \<in> set (events (verifyToken jwt c req nxt))" and "\<not> truthy v"
  shows "responses (verifyToken jwt c req nxt) = [(401, message_body c ''noToken'')] \<and>
         (\<forall>token secret result.
            Verify token secret result \<notin> set (events (verifyToken jwt c req nxt))) \<and>
         next_calls (verifyToken jwt c req nxt) = 0 \<and>
         request (verifyToken jwt c req nxt) = req"
proof -
  have "\<not> disableTokenVerification c \<and> extractToken c req = Inr v"
    using extract_event [OF assms(1)] .
  then have "verifyToken jwt c req nxt =
           \<lparr> events = [Extract (Inr v), LogWarn (logger c) (message_of c ''noToken''),
                        Respond 401 (message_body c ''noToken'')],
             request = req, completion = Returned \<rparr>"
    using no_token_outcome [of c req v jwt nxt] assms(2) by simp
  then show ?thesis
    by (simp add: responses_def next_calls_def)
qed

text \<open>
  The theorem at the custom extractor of the concrete inputs and a request whose
  \<^verbatim>\<open>x-custom-token\<close> header is the empty string.
\<close>

lemma run_custom_empty:
  "events (verifyToken sample_verify
       (bindings (secret_only \<lparr> opt_extractToken := Some custom_header_extractor \<rparr>))
       [''headers'' \<mapsto> JObj [(''x-custom-token'', JStr [])]] None) =
     [Extract (Inr (JStr [])),
      LogWarn Console (JStr ''No authorization header provided''),
      Respond 401 (JObj [(''message'', JStr ''No authorization header provided'')])]"
  by (simp add: verifyToken_def bindings_def secret_only_def custom_header_extractor_def
      message_body_def message_of_def default_messages_def)

theorem falsy_extraction_never_verified_witness:
  "Extract (Inr (JStr []))
     \<in> set (events (verifyToken sample_verify
           (bindings (secret_only \<lparr> opt_extractToken := Some custom_header_extractor \<rparr>))
           [''headers'' \<mapsto> JObj [(''x-custom-token'', JStr [])]] None)) \<and>
   \<not> truthy (JStr []) \<and>
   responses (verifyToken sample_verify
       (bindings (secret_only \<lparr> opt_extractToken := Some custom_header_extractor \<rparr>))
       [''headers'' \<mapsto> JObj [(''x-custom-token'', JStr [])]] None) =
     [(401, JObj [(''message'', JStr ''No authorization header provided'')])]"
proof -
  let ?c = "bindings (secret_only \<lparr> opt_extractToken := Some custom_header_extractor \<rparr>)"
  have a: "Extract (Inr (JStr []))
     \<in> set (events (verifyToken sample_verify ?c
           [''headers'' \<mapsto> JObj [(''x-custom-token'', JStr [])]] None))"
    by (simp add: run_custom_empty)
  have b: "\<not> truthy (JStr [])" by simp
  have m: "message_body ?c ''noToken'' =
             JObj [(''message'', JStr ''No authorization header provided'')]"
    by (simp add: message_body_def message_of_def bindings_def secret_only_def
        default_messages_def)
  show ?thesis
    using falsy_extraction_never_verified [OF a b] a m by simp
qed

section \<open>Tokens that pass verification\<close>

lemma accepted_outcome_returning:
  assumes "\<not> disableTokenVerification c" and "extractToken c req = Inr token"
    and "truthy token" and "jwt token (secretKey c) = Inr claims"
  shows "verifyToken jwt c req None =
           \<lparr> events = [Extract (Inr token), Verify token (secretKey c) (Inr claims), NextCall],
             request = req(userProperty c \<mapsto> claims),
             completion = Returned \<rparr>"
  using assms by (simp add: verifyToken_def)

lemma accepted_outcome_throwing:
  assumes "\<not> disableTokenVerification c" and "extractToken c req = Inr token"
    and "truthy token" and "jwt token (secretKey c) = Inr claims"
  shows "verifyToken jwt c req (Some err) =
           catch_block c err
             [Extract (Inr token), Verify token (secretKey c) (Inr claims), NextCall]
             (req(userProperty c \<mapsto> claims))"
  using assms by (simp add: verifyToken_def)

text \<open>
  Claim C2, as stated, fails on a handler constructed with
  \<^verbatim>\<open>disableTokenVerification: true\<close>: the request below carries the token \<^verbatim>\<open>good\<close>, which
  the verifier accepts under the configured secret, and the handler leaves the identity
  field \<^verbatim>\<open>user\<close> unset.
\<close>

theorem accepted_token_not_attached_when_disabled:
  "createVerifyTokenMiddleware sample_verify (Some verification_disabled) =
     Inr (verifyToken sample_verify (bindings verification_disabled)) \<and>
   extractToken (bindings verification_disabled) (request_with_authorization ''Bearer good'') =
     Inr (JStr ''good'') \<and>
   sample_verify (JStr ''good'') (secretKey (bindings verification_disabled)) =
     Inr sample_claims \<and>
   request (verifyToken sample_verify (bindings verification_disabled)
       (request_with_authorization ''Bearer good'') None) ''user'' = None"
  by (simp add: create_disabled)
    (simp add: verifyToken_def bindings_def verification_disabled_def secret_only_def
      request_with_authorization_def defaultExtractToken_def sample_verify_def)

text \<open>
  Claim C2, amended. When token verification is not disabled, for every request from
  which the configured extractor returns a truthy token that \<^verbatim>\<open>jwt.verify\<close> accepts under
  the configured secret, the handler assigns the decoded payload, as \<^verbatim>\<open>jwt.verify\<close>
  returned it, to the property of the request named by \<^verbatim>\<open>userProperty\<close> (\<^verbatim>\<open>user\<close> when the
  option is not given or empty), and it calls \<^verbatim>\<open>next\<close> exactly once. When that call of
  \<^verbatim>\<open>next\<close> returns, no response is written and the handler returns.
\<close>

theorem accepted_token_attached_and_next_called:
  assumes "createVerifyTokenMiddleware jwt (Some opts) = Inr handler"
    and "opt_disableTokenVerification opts \<noteq> Some True"
    and "extractToken (bindings opts) req = Inr token"
    and "truthy token"
    and "jwt token (secretKey (bindings opts)) = Inr claims"
  shows "request (handler req nxt) = req(userProperty (bindings opts) \<mapsto> claims) \<and>
         userProperty (bindings opts) =
           (case opt_userProperty opts of
              None \<Rightarrow> ''user''
            | Some p \<Rightarrow> (if p = [] then ''user'' else p)) \<and>
         next_calls (handler req nxt) = 1 \<and>
         responses (handler req None) = [] \<and>
         completion (handler req None) = Returned"
proof -
  let ?c = "bindings opts"
  have h: "handler = verifyToken jwt ?c"
    using create_Inr [OF assms(1)] by simp
  have d: "\<not> disableTokenVerification ?c"
    using assms(2) by (cases "opt_disableTokenVerification opts") (auto simp: bindings_def)
  have r: "verifyToken jwt ?c req None =
           \<lparr> events = [Extract (Inr token), Verify token (secretKey ?c) (Inr claims), NextCall],
             request = req(userProperty ?c \<mapsto> claims),
             completion = Returned \<rparr>"
    using accepted_outcome_returning [where jwt = jwt, OF d assms(3) assms(4) assms(5)] .
  have t: "\<And>err. verifyToken jwt ?c req (Some err) =
           catch_block ?c err
             [Extract (Inr token), Verify token (secretKey ?c) (Inr claims), NextCall]
             (req(userProperty ?c \<mapsto> claims))"
    using accepted_outcome_throwing [where jwt = jwt, OF d assms(3) assms(4) assms(5)] .
  have u: "userProperty ?c =
           (case opt_userProperty opts of
              None \<Rightarrow> ''user''
            | Some p \<Rightarrow> (if p = [] then ''user'' else p))"
    by (simp add: bindings_def)
  have "request (handler req nxt) = req(userProperty ?c \<mapsto> claims) \<and>
        next_calls (handler req nxt) = 1"
    using h r t by (cases nxt) (simp_all add: next_calls_def catch_block_def)
  moreover have "responses (handler req None) = [] \<and> completion (handler req None) = Returned"
    using h r by (simp add: responses_def)
  ultimately show ?thesis
    using u by simp
qed

lemma sample_bindings:
  "secretKey (bindings secret_only) = ''s3cret'' \<and>
   userProperty (bindings secret_only) = ''user'' \<and>
   logger (bindings secret_only) = Console \<and>
   extractToken (bindings secret_only) = defaultExtractToken \<and>
   \<not> disableTokenVerification (bindings secret_only)"
  by (simp add: bindings_def secret_only_def)

lemma extract_good:
  "defaultExtractToken (request_with_authorization ''Bearer good'') = Inr (JStr ''good'')"
  by (simp add: defaultExtractToken_def request_with_authorization_def)

text \<open>
  The amended claim at the spec's example: the secret \<^verbatim>\<open>s3cret\<close>, the token \<^verbatim>\<open>good\<close> with
  the payload \<^verbatim>\<open>{sub: "u1"}\<close>, a continuation that returns.
\<close>

theorem accepted_token_attached_and_next_called_witness:
  "createVerifyTokenMiddleware sample_verify (Some secret_only) =
     Inr (verifyToken sample_verify (bindings secret_only)) \<and>
   opt_disableTokenVerification secret_only \<noteq> Some True \<and>
   extractToken (bindings secret_only) (request_with_authorization ''Bearer good'') =
     Inr (JStr ''good'') \<and>
   truthy (JStr ''good'') \<and>
   sample_verify (JStr ''good'') (secretKey (bindings secret_only)) = Inr sample_claims \<and>
   request (verifyToken sample_verify (bindings secret_only)
       (request_with_authorization ''Bearer good'') None) =
     (request_with_authorization ''Bearer good'')(''user'' \<mapsto> sample_claims) \<and>
   next_calls (verifyToken sample_verify (bindings secret_only)
       (request_with_authorization ''Bearer good'') None) = 1 \<and>
   responses (verifyToken sample_verify (bindings secret_only)
       (request_with_authorization ''Bearer good'') None) = []"
proof -
  have a: "opt_disableTokenVerification secret_only \<noteq> Some True"
    by (simp add: secret_only_def)
  have b: "extractToken (bindings secret_only) (request_with_authorization ''Bearer good'') =
             Inr (JStr ''good'')"
    by (simp add: sample_bindings extract_good)
  have c: "truthy (JStr ''good'')" by simp
  have d: "sample_verify (JStr ''good'') (secretKey (bindings secret_only)) = Inr sample_claims"
    by (simp add: sample_bindings sample_verify_def)
  show ?thesis
    using accepted_token_attached_and_next_called [OF create_sample a b c d, of None]
      create_sample a b c d
    by (simp add: sample_bindings)
qed

section \<open>A continuation that throws\<close>

text \<open>
  Claim C9 says that on the path of a successful verification the response is never
  written to, and that on the path of an invalid token the request is left as it was.
  The call \<^verbatim>\<open>next()\<close> of line 63 is inside the \<^verbatim>\<open>try\<close>, so an error that the
  downstream stage throws is caught by the \<^verbatim>\<open>catch\<close> block written for the errors of
  \<^verbatim>\<open>jwt.verify\<close>: with the secret \<^verbatim>\<open>s3cret\<close>, the accepted token \<^verbatim>\<open>good\<close> and a continuation
  that throws, the handler attaches the payload, calls \<^verbatim>\<open>next\<close>, logs
  \<^verbatim>\<open>Error decoding/verifying token\<close> and writes 401 with the \<^verbatim>\<open>invalidToken\<close> message.
  In the bypass branch the same error of \<^verbatim>\<open>next\<close> leaves the handler and nothing is
  written.
\<close>

theorem downstream_error_answered_as_invalid_token:
  "createVerifyTokenMiddleware sample_verify (Some secret_only) =
     Inr (verifyToken sample_verify (bindings secret_only)) \<and>
   events (verifyToken sample_verify (bindings secret_only)
       (request_with_authorization ''Bearer good'') (Some downstream_error)) =
     [Extract (Inr (JStr ''good'')),
      Verify (JStr ''good'') ''s3cret'' (Inr sample_claims),
      NextCall,
      LogWarnErr Console downstream_error ''Error decoding/verifying token'',
      Respond 401
        (JObj [(''message'', JStr ''Error validating token credentials. Please relogin'')])] \<and>
   request (verifyToken sample_verify (bindings secret_only)
       (request_with_authorization ''Bearer good'') (Some downstream_error)) ''user'' =
     Some sample_claims \<and>
   completion (verifyToken sample_verify (bindings secret_only)
       (request_with_authorization ''Bearer good'') (Some downstream_error)) = Returned \<and>
   events (verifyToken sample_verify (bindings verification_disabled)
       (request_with_authorization ''Bearer good'') (Some downstream_error)) =
     [LogInfo Console ''Token verification is disabled. Skipping verification.'', NextCall] \<and>
   completion (verifyToken sample_verify (bindings verification_disabled)
       (request_with_authorization ''Bearer good'') (Some downstream_error)) =
     Raised downstream_error"
  by (simp add: create_sample)
    (simp add: verifyToken_def bindings_def verification_disabled_def secret_only_def
      request_with_authorization_def defaultExtractToken_def sample_verify_def catch_block_def
      message_body_def message_of_def default_messages_def downstream_error_def)

text \<open>
  What does hold of the request object on every path: it is the request that was given,
  or that request with the decoded payload assigned to the identity field after a call
  of \<^verbatim>\<open>jwt.verify\<close> that returned the payload.
\<close>

lemma request_frame:
  "request (verifyToken jwt c req nxt) = req \<or>
   (\<exists>token claims.
      Verify token (secretKey c) (Inr claims) \<in> set (events (verifyToken jwt c req nxt)) \<and>
      request (verifyToken jwt c req nxt) = req(userProperty c \<mapsto> claims))"
  by (auto simp: verifyToken_def catch_block_def split: sum.splits option.splits)

lemma no_response_when_next_returns:
  assumes "Verify token secret (Inr claims) \<in> set (events (verifyToken jwt c req None))"
  shows "responses (verifyToken jwt c req None) = []"
proof -
  have "\<not> disableTokenVerification c \<and> extractToken c req = Inr token \<and> truthy token \<and>
        secret = secretKey c \<and> jwt token secret = Inr claims"
    using verify_event [OF assms] .
  then show ?thesis
    by (auto simp: verifyToken_def responses_def)
qed

section \<open>Requests without a Bearer header\<close>

lemma defaultExtractToken_no_bearer:
  assumes "req ''headers'' = Some (JObj hs)"
    and "map_of hs ''authorization'' = Some (JStr h)"
    and "\<not> prefix ''Bearer '' h"
  shows "defaultExtractToken req = Inr JNull \<or> defaultExtractToken req = Inr JUndefined"
proof (cases "before_space h = ''Bearer''")
  case True
  then have "CHR '' '' \<notin> set h"
    using bearer_prefix [of h] assms(3) by blast
  then show ?thesis
    using True by (simp add: defaultExtractToken_string [where req = req, OF assms(1) assms(2)])
next
  case False
  then show ?thesis
    by (simp add: defaultExtractToken_string [where req = req, OF assms(1) assms(2)])
qed

text \<open>
  Claim C5, as stated, fails on a handler constructed with the default extractor and
  \<^verbatim>\<open>disableTokenVerification: true\<close>: for a request with no \<^verbatim>\<open>Authorization\<close> header it
  writes no response and calls \<^verbatim>\<open>next\<close>.
\<close>

theorem no_header_passes_when_disabled:
  "createVerifyTokenMiddleware sample_verify (Some verification_disabled) =
     Inr (verifyToken sample_verify (bindings verification_disabled)) \<and>
   opt_extractToken verification_disabled = None \<and>
   request_without_headers ''headers'' = Some (JObj []) \<and>
   map_of [] ''authorization'' = (None :: jsval option) \<and>
   responses (verifyToken sample_verify (bindings verification_disabled)
       request_without_headers None) = [] \<and>
   next_calls (verifyToken sample_verify (bindings verification_disabled)
       request_without_headers None) = 1"
  by (simp add: create_disabled)
    (simp add: verifyToken_def bindings_def verification_disabled_def secret_only_def
      responses_def next_calls_def request_without_headers_def)

text \<open>
  Claim C5, amended. When token verification is not disabled and the extractor is the
  default one, for every request whose \<^verbatim>\<open>Authorization\<close> header is absent, or is a string
  that does not start with \<^verbatim>\<open>Bearer\<close> and a space, the handler writes the single response
  401 with the body \<^verbatim>\<open>{message: messages.noToken}\<close>, never calls \<^verbatim>\<open>next\<close>, leaves the request
  as it was and returns; the two shapes of input get the same treatment.
\<close>

theorem no_bearer_header_rejected:
  assumes "createVerifyTokenMiddleware jwt (Some opts) = Inr handler"
    and "opt_extractToken opts = None"
    and "opt_disableTokenVerification opts \<noteq> Some True"
    and "req ''headers'' = Some (JObj hs)"
    and "map_of hs ''authorization'' = None \<or>
         (\<exists>h. map_of hs ''authorization'' = Some (JStr h) \<and> \<not> prefix ''Bearer '' h)"
  shows "responses (handler req nxt) = [(401, message_body (bindings opts) ''noToken'')] \<and>
         next_calls (handler req nxt) = 0 \<and>
         request (handler req nxt) = req \<and>
         completion (handler req nxt) = Returned"
proof -
  let ?c = "bindings opts"
  have h: "handler = verifyToken jwt ?c"
    using create_Inr [OF assms(1)] by simp
  have d: "\<not> disableTokenVerification ?c"
    using assms(3) by (cases "opt_disableTokenVerification opts") (auto simp: bindings_def)
  have e: "extractToken ?c = defaultExtractToken"
    using assms(2) by (simp add: bindings_def)
  have "defaultExtractToken req = Inr JNull \<or> defaultExtractToken req = Inr JUndefined"
    using assms(5) defaultExtractToken_absent [where req = req, OF assms(4)]
      defaultExtractToken_no_bearer [where req = req, OF assms(4)]
    by blast
  then obtain v where v: "extractToken ?c req = Inr v" and f: "\<not> truthy v"
    using e by auto
  have "verifyToken jwt ?c req nxt =
           \<lparr> events = [Extract (Inr v), LogWarn (logger ?c) (message_of ?c ''noToken''),
                        Respond 401 (message_body ?c ''noToken'')],
             request = req, completion = Returned \<rparr>"
    using no_token_outcome [where req = req, OF d v f] .
  then show ?thesis
    using h by (simp add: responses_def next_calls_def)
qed

text \<open>
  The amended claim at a request with no header and at a request with the header
  \<^verbatim>\<open>Basic abc\<close>: both are answered 401 with the built-in \<^verbatim>\<open>noToken\<close> message.
\<close>

theorem no_bearer_header_rejected_witness:
  "createVerifyTokenMiddleware sample_verify (Some secret_only) =
     Inr (verifyToken sample_verify (bindings secret_only)) \<and>
   opt_extractToken secret_only = None \<and>
   opt_disableTokenVerification secret_only \<noteq> Some True \<and>
   request_without_headers ''headers'' = Some (JObj []) \<and>
   map_of [] ''authorization'' = (None :: jsval option) \<and>
   request_with_authorization ''Basic abc'' ''headers'' =
     Some (JObj [(''authorization'', JStr ''Basic abc'')]) \<and>
   map_of [(''authorization'', JStr ''Basic abc'')] ''authorization'' = Some (JStr ''Basic abc'') \<and>
   \<not> prefix ''Bearer '' ''Basic abc'' \<and>
   responses (verifyToken sample_verify (bindings secret_only) request_without_headers None) =
     [(401, JObj [(''message'', JStr ''No authorization header provided'')])] \<and>
   next_calls (verifyToken sample_verify (bindings secret_only) request_without_headers None) =
     0 \<and>
   responses (verifyToken sample_verify (bindings secret_only)
       (request_with_authorization ''Basic abc'') None) =
     [(401, JObj [(''message'', JStr ''No authorization header provided'')])] \<and>
   next_calls (verifyToken sample_verify (bindings secret_only)
       (request_with_authorization ''Basic abc'') None) = 0"
proof -
  have a: "opt_extractToken secret_only = None"
    by (simp add: secret_only_def)
  have b: "opt_disableTokenVerification secret_only \<noteq> Some True"
    by (simp add: secret_only_def)
  have c1: "request_without_headers ''headers'' = Some (JObj [])"
    by (simp add: request_without_headers_def)
  have d1: "map_of [] ''authorization'' = (None :: jsval option) \<or>
            (\<exists>h. map_of [] ''authorization'' = Some (JStr h) \<and> \<not> prefix ''Bearer '' h)"
    by simp
  have c2: "request_with_authorization ''Basic abc'' ''headers'' =
              Some (JObj [(''authorization'', JStr ''Basic abc'')])"
    by (simp add: request_with_authorization_def)
  have p: "\<not> prefix ''Bearer '' ''Basic abc''"
    by simp
  have d2: "map_of [(''authorization'', JStr ''Basic abc'')] ''authorization'' = None \<or>
            (\<exists>h. map_of [(''authorization'', JStr ''Basic abc'')] ''authorization'' =
                    Some (JStr h) \<and> \<not> prefix ''Bearer '' h)"
    using p by simp
  have m: "message_body (bindings secret_only) ''noToken'' =
             JObj [(''message'', JStr ''No authorization header provided'')]"
    by (simp add: message_body_def message_of_def bindings_def secret_only_def
        default_messages_def)
  show ?thesis
    using no_bearer_header_rejected [where req = request_without_headers and nxt = None,
        OF create_sample a b c1 d1]
      no_bearer_header_rejected [where req = "request_with_authorization ''Basic abc''"
        and nxt = None, OF create_sample a b c2 d2]
      create_sample a b c1 c2 p m
    by simp
qed

section \<open>What the default extractor returns\<close>

text \<open>
  Claim C6, as stated, fails on the header \<^verbatim>\<open>Bearer a b\<close>: the scheme is \<^verbatim>\<open>Bearer\<close> and the
  text after the first space is \<^verbatim>\<open>a b\<close>, but \<^verbatim>\<open>split(' ')\<close> cuts at every space and the
  destructuring keeps the second piece only, so the extractor returns \<^verbatim>\<open>a\<close>.
\<close>

theorem second_piece_not_remainder:
  "before_space ''Bearer a b'' = ''Bearer'' \<and>
   after_space ''Bearer a b'' = ''a b'' \<and>
   defaultExtractToken (request_with_authorization ''Bearer a b'') = Inr (JStr ''a'') \<and>
   defaultExtractToken (request_with_authorization ''Bearer a b'') \<noteq>
     Inr (JStr (after_space ''Bearer a b''))"
  by (simp add: before_space_def after_space_def defaultExtractToken_def
      request_with_authorization_def)

text \<open>
  Claim C6, amended. The default extractor, applied to a request whose \<^verbatim>\<open>Authorization\<close>
  header is the string \<open>h\<close>, cuts \<open>h\<close> at every space character. It returns the second
  piece, that is the text between the first and the second space of \<open>h\<close> (up to the end
  of \<open>h\<close> when there is one space only), exactly when the first piece is the literal
  \<^verbatim>\<open>Bearer\<close>, compared with case; it returns \<^verbatim>\<open>undefined\<close> when \<open>h\<close> is \<^verbatim>\<open>Bearer\<close> with no space,
  and \<^verbatim>\<open>null\<close> when the first piece is anything else. When the second piece is empty or
  absent, a handler with the default extractor and with verification not disabled
  answers 401 with the \<^verbatim>\<open>noToken\<close> message and does not call \<^verbatim>\<open>jwt.verify\<close>.
\<close>

theorem default_extractor_second_piece:
  assumes "req ''headers'' = Some (JObj hs)"
    and "map_of hs ''authorization'' = Some (JStr h)"
    and "createVerifyTokenMiddleware jwt (Some opts) = Inr handler"
    and "opt_extractToken opts = None"
    and "opt_disableTokenVerification opts \<noteq> Some True"
  shows "defaultExtractToken req =
           Inr (if before_space h = ''Bearer''
                then (if CHR '' '' \<in> set h then JStr (before_space (after_space h))
                      else JUndefined)
                else JNull) \<and>
         (before_space h = ''Bearer'' \<and>
          (CHR '' '' \<notin> set h \<or> before_space (after_space h) = []) \<longrightarrow>
            responses (handler req nxt) = [(401, message_body (bindings opts) ''noToken'')] \<and>
            (\<forall>token secret result.
               Verify token secret result \<notin> set (events (handler req nxt))))"
proof -
  let ?c = "bindings opts"
  let ?v = "if before_space h = ''Bearer''
            then (if CHR '' '' \<in> set h then JStr (before_space (after_space h))
                  else JUndefined)
            else JNull"
  have x: "defaultExtractToken req = Inr ?v"
    using defaultExtractToken_string [where req = req, OF assms(1) assms(2)] .
  have h: "handler = verifyToken jwt ?c"
    using create_Inr [OF assms(3)] by simp
  have d: "\<not> disableTokenVerification ?c"
    using assms(5) by (cases "opt_disableTokenVerification opts") (auto simp: bindings_def)
  have e: "extractToken ?c req = Inr ?v"
    using assms(4) x by (simp add: bindings_def)
  have "responses (handler req nxt) = [(401, message_body ?c ''noToken'')] \<and>
        (\<forall>token secret result. Verify token secret result \<notin> set (events (handler req nxt)))"
    if f: "\<not> truthy ?v"
  proof -
    have "verifyToken jwt ?c req nxt =
           \<lparr> events = [Extract (Inr ?v), LogWarn (logger ?c) (message_of ?c ''noToken''),
                        Respond 401 (message_body ?c ''noToken'')],
             request = req, completion = Returned \<rparr>"
      using no_token_outcome [where req = req, OF d e f] .
    then show ?thesis
      using h by (simp add: responses_def)
  qed
  moreover have "\<not> truthy ?v"
    if "before_space h = ''Bearer'' \<and>
        (CHR '' '' \<notin> set h \<or> before_space (after_space h) = [])"
    using that by auto
  ultimately show ?thesis
    using x by blast
qed

text \<open>
  The amended claim at three headers: \<^verbatim>\<open>Bearer a b\<close> gives the token \<^verbatim>\<open>a\<close>; \<^verbatim>\<open>Bearer\<close> alone
  gives \<^verbatim>\<open>undefined\<close> and \<^verbatim>\<open>Bearer\<close> followed by two spaces and \<^verbatim>\<open>x\<close> gives the empty
  string, and both are answered 401 with the built-in \<^verbatim>\<open>noToken\<close> message.
\<close>

theorem default_extractor_second_piece_witness:
  "defaultExtractToken (request_with_authorization ''Bearer a b'') = Inr (JStr ''a'') \<and>
   defaultExtractToken (request_with_authorization ''Bearer'') = Inr JUndefined \<and>
   responses (verifyToken sample_verify (bindings secret_only)
       (request_with_authorization ''Bearer'') None) =
     [(401, JObj [(''message'', JStr ''No authorization header provided'')])] \<and>
   defaultExtractToken (request_with_authorization ''Bearer  x'') = Inr (JStr []) \<and>
   responses (verifyToken sample_verify (bindings secret_only)
       (request_with_authorization ''Bearer  x'') None) =
     [(401, JObj [(''message'', JStr ''No authorization header provided'')])]"
proof -
  have a: "opt_extractToken secret_only = None"
    by (simp add: secret_only_def)
  have b: "opt_disableTokenVerification secret_only \<noteq> Some True"
    by (simp add: secret_only_def)
  have r: "\<And>h. request_with_authorization h ''headers'' = Some (JObj [(''authorization'', JStr h)])"
    by (simp add: request_with_authorization_def)
  have l: "\<And>h. map_of [(''authorization'', JStr h)] ''authorization'' = Some (JStr h)"
    by simp
  have m: "message_body (bindings secret_only) ''noToken'' =
             JObj [(''message'', JStr ''No authorization header provided'')]"
    by (simp add: message_body_def message_of_def bindings_def secret_only_def
        default_messages_def)
  show ?thesis
    using
      default_extractor_second_piece [where req = "request_with_authorization ''Bearer a b''"
        and nxt = None, OF r l create_sample a b]
      default_extractor_second_piece [where req = "request_with_authorization ''Bearer''"
        and nxt = None, OF r l create_sample a b]
      default_extractor_second_piece [where req = "request_with_authorization ''Bearer  x''"
        and nxt = None, OF r l create_sample a b]
      m
    by (simp add: before_space_def after_space_def)
qed

end
